theory Spec2Isabelle
  imports Main
begin

section \<open>Data model\<close>

text \<open>
  Python strings are modelled as \<open>string\<close>; one \<open>char\<close> stands for one character of the
  Python \<open>str\<close>, and the development only uses the length and the equality of strings.

  \<open>models.py\<close>: one row of the table \<open>inventory_items\<close>, as the attributes of the ORM
  object. An attribute of the Python object may hold \<open>None\<close>, so the three data columns
  are options; the column constraints (\<open>nullable=False\<close>, \<open>unique=True\<close>, the primary
  key) are checked when a transaction commits, see \<open>insert_ok\<close> and \<open>update_ok\<close>.
\<close>

record InventoryItem =
  item_id :: int
  item_name :: "string option"
  item_description :: "string option"
  item_status :: "bool option"

text \<open>
  The persistent state behind a \<open>Session\<close>: the rows of \<open>inventory_items\<close> in rowid
  order, which is the order an unordered SQLite query returns them in.
\<close>

type_synonym db = "InventoryItem list"

text \<open>
  A field of a JSON request body: left out, sent as \<open>null\<close>, or sent with a value of the
  declared type. (A value of another JSON type is outside this model.)
\<close>

datatype 'a json_field = Unset | Null | Given 'a

record raw_create =
  raw_name :: "string json_field"
  raw_description :: "string json_field"
  raw_status :: "bool json_field"

text \<open>\<open>schemas.py\<close>: a validated \<open>InventoryItemCreate\<close>.\<close>

record InventoryItemCreate =
  create_name :: string
  create_description :: "string option"
  create_status :: bool

text \<open>
  \<open>schemas.py\<close>: an \<open>InventoryItemUpdate\<close>. Every field is \<open>Optional\<close> with default
  \<open>None\<close>, and pydantic records which fields the request set (\<open>model_fields_set\<close>); the
  three-valued field keeps both: \<open>Unset\<close> is a field not in \<open>model_fields_set\<close>, \<open>Null\<close> one
  set to \<open>None\<close>.
\<close>

record InventoryItemUpdate =
  update_name :: "string json_field"
  update_description :: "string json_field"
  update_status :: "bool json_field"

text \<open>
  What a request can fail with: an \<open>HTTPException\<close> raised by a handler of \<open>main.py\<close>,
  the validation error FastAPI raises before the handler runs (status 422), or an
  \<open>OverflowError\<close> of the database driver, which neither \<open>crud.py\<close> nor \<open>main.py\<close>
  catches and the server answers with status 500.
\<close>

datatype error = HTTPException nat string | RequestValidationError | OverflowError


section \<open>Validation (\<open>schemas.py\<close>)\<close>

text \<open>\<open>Field(..., min_length=1, max_length=100)\<close> on a \<open>str\<close>.\<close>

definition name_ok :: "string \<Rightarrow> bool" where
  "name_ok s = (1 \<le> length s \<and> length s \<le> 100)"

text \<open>\<open>Field(None, max_length=500)\<close> on a \<open>str\<close>.\<close>

definition description_ok :: "string \<Rightarrow> bool" where
  "description_ok s = (length s \<le> 500)"

text \<open>
  \<open>InventoryItemCreate\<close>: \<open>name: str\<close> is required and not \<open>None\<close>;
  \<open>description: Optional[str]\<close> defaults to \<open>None\<close>; \<open>status: bool\<close> defaults to \<open>True\<close>
  and does not accept \<open>None\<close>.
\<close>

fun validate_create_name :: "string json_field \<Rightarrow> string option" where
  "validate_create_name (Given s) = (if name_ok s then Some s else None)"
| "validate_create_name Unset = None"
| "validate_create_name Null = None"

fun validate_description :: "string json_field \<Rightarrow> string option option" where
  "validate_description (Given s) = (if description_ok s then Some (Some s) else None)"
| "validate_description Unset = Some None"
| "validate_description Null = Some None"

fun validate_create_status :: "bool json_field \<Rightarrow> bool option" where
  "validate_create_status (Given b) = Some b"
| "validate_create_status Unset = Some True"
| "validate_create_status Null = None"

definition validate_create :: "raw_create \<Rightarrow> error + InventoryItemCreate" where
  "validate_create raw =
     (case validate_create_name (raw_name raw) of
        None \<Rightarrow> Inl RequestValidationError
      | Some n \<Rightarrow>
          (case validate_description (raw_description raw) of
             None \<Rightarrow> Inl RequestValidationError
           | Some d \<Rightarrow>
               (case validate_create_status (raw_status raw) of
                  None \<Rightarrow> Inl RequestValidationError
                | Some s \<Rightarrow>
                    Inr \<lparr>create_name = n, create_description = d, create_status = s\<rparr>)))"

text \<open>
  \<open>InventoryItemUpdate\<close>: \<open>name: Optional[str]\<close> with the length bounds,
  \<open>description: Optional[str]\<close> with its bound, \<open>status: Optional[bool]\<close>. \<open>None\<close> passes
  each of them.
\<close>

fun update_name_ok :: "string json_field \<Rightarrow> bool" where
  "update_name_ok (Given s) = name_ok s"
| "update_name_ok Unset = True"
| "update_name_ok Null = True"

fun update_description_ok :: "string json_field \<Rightarrow> bool" where
  "update_description_ok (Given s) = description_ok s"
| "update_description_ok Unset = True"
| "update_description_ok Null = True"

definition validate_update :: "InventoryItemUpdate \<Rightarrow> error + InventoryItemUpdate" where
  "validate_update raw =
     (if update_name_ok (update_name raw) \<and> update_description_ok (update_description raw)
      then Inr raw else Inl RequestValidationError)"

text \<open>Reading an attribute of the update model: an unset field reads as its default \<open>None\<close>.\<close>

fun attr :: "'a json_field \<Rightarrow> 'a option" where
  "attr (Given v) = Some v"
| "attr Unset = None"
| "attr Null = None"

section \<open>The store (\<open>crud.py\<close>)\<close>

text \<open>
  A Python \<open>int\<close> is unbounded, an SQLite integer is a signed 64-bit one. The driver
  raises \<open>OverflowError\<close> when a statement is given a parameter outside that range;
  the functions of \<open>crud.py\<close> catch \<open>IntegrityError\<close> only.
\<close>

definition in_int64 :: "int \<Rightarrow> bool" where
  "in_int64 i = (- (2 ^ 63) \<le> i \<and> i < 2 ^ 63)"

text \<open>\<open>db.query(InventoryItem).filter(InventoryItem.id == item_id).first()\<close>\<close>

definition get_item :: "db \<Rightarrow> int \<Rightarrow> error + InventoryItem option" where
  "get_item db i =
     (if in_int64 i then Inr (find (\<lambda>r. item_id r = i) db) else Inl OverflowError)"

text \<open>\<open>db.query(InventoryItem).filter(InventoryItem.name == name).first()\<close>\<close>

definition get_item_by_name :: "db \<Rightarrow> string \<Rightarrow> InventoryItem option" where
  "get_item_by_name db n = find (\<lambda>r. item_name r = Some n) db"

text \<open>
  \<open>OFFSET\<close> and \<open>LIMIT\<close> as SQLite evaluates them: a negative offset counts as zero, a
  negative limit is no limit.
\<close>

definition sql_offset :: "int \<Rightarrow> 'a list \<Rightarrow> 'a list" where
  "sql_offset k xs = (if k < 0 then xs else drop (nat k) xs)"

definition sql_limit :: "int \<Rightarrow> 'a list \<Rightarrow> 'a list" where
  "sql_limit k xs = (if k < 0 then xs else take (nat k) xs)"

text \<open>
  \<open>db.query(InventoryItem).offset(skip).limit(limit).all()\<close>; \<open>skip\<close> and \<open>limit\<close> are
  parameters of the statement.
\<close>

definition get_items :: "db \<Rightarrow> int \<Rightarrow> int \<Rightarrow> error + InventoryItem list" where
  "get_items db skip limit =
     (if in_int64 skip \<and> in_int64 limit then Inr (sql_limit limit (sql_offset skip db))
      else Inl OverflowError)"

text \<open>
  The id SQLite gives an inserted row of a table with an \<open>INTEGER PRIMARY KEY\<close>: one more
  than the largest id in the table, and 1 for an empty table. Every id comes from this
  rule, so the ids of a table are positive and the 0 the fold starts from is never the
  maximum of a table with rows. SQLite follows the rule while the largest id is below
  \<open>2 ^ 63 - 1\<close>, that is while \<open>in_int64 (next_id db)\<close>; what it does on a table at the
  end of the id range is not modelled.
\<close>

definition next_id :: "db \<Rightarrow> int" where
  "next_id db = fold max (map item_id db) 0 + 1"

text \<open>
  The constraints an \<open>INSERT\<close> is checked against at commit: \<open>name\<close> and \<open>status\<close> are
  \<open>NOT NULL\<close> and \<open>name\<close> is \<open>UNIQUE\<close>. A violation raises \<open>IntegrityError\<close>.
\<close>

definition insert_ok :: "db \<Rightarrow> InventoryItem \<Rightarrow> bool" where
  "insert_ok db r =
     (item_name r \<noteq> None \<and> item_status r \<noteq> None \<and>
      find (\<lambda>q. item_name q = item_name r) db = None)"

text \<open>The same for an \<open>UPDATE\<close> of the row \<open>r\<close>: uniqueness is against the other rows.\<close>

definition update_ok :: "db \<Rightarrow> InventoryItem \<Rightarrow> bool" where
  "update_ok db r =
     (item_name r \<noteq> None \<and> item_status r \<noteq> None \<and>
      find (\<lambda>q. item_id q \<noteq> item_id r \<and> item_name q = item_name r) db = None)"

text \<open>
  \<open>create_item\<close>: build the object, add and commit it. On \<open>IntegrityError\<close> the
  transaction is rolled back and the result is \<open>None\<close>.
\<close>

definition create_item :: "db \<Rightarrow> InventoryItemCreate \<Rightarrow> InventoryItem option \<times> db" where
  "create_item db item =
     (let db_item = \<lparr>item_id = next_id db,
                     item_name = Some (create_name item),
                     item_description = create_description item,
                     item_status = Some (create_status item)\<rparr>
      in if insert_ok db db_item then (Some db_item, db @ [db_item]) else (None, db))"

text \<open>\<open>setattr(db_item, key, value)\<close> for one key of \<open>model_dump(exclude_unset=True)\<close>.\<close>

fun set_attr :: "'a json_field \<Rightarrow> 'a option \<Rightarrow> 'a option" where
  "set_attr Unset old = old"
| "set_attr Null old = None"
| "set_attr (Given v) old = Some v"

definition apply_update :: "InventoryItemUpdate \<Rightarrow> InventoryItem \<Rightarrow> InventoryItem" where
  "apply_update item r =
     r\<lparr>item_name := set_attr (update_name item) (item_name r),
       item_description := set_attr (update_description item) (item_description r),
       item_status := set_attr (update_status item) (item_status r)\<rparr>"

text \<open>The \<open>UPDATE\<close> of the row with primary key \<open>i\<close>.\<close>

definition replace_row :: "int \<Rightarrow> InventoryItem \<Rightarrow> db \<Rightarrow> db" where
  "replace_row i new db = map (\<lambda>r. if item_id r = i then new else r) db"

text \<open>
  \<open>update_item\<close>: the query by id raises \<open>OverflowError\<close> for an id outside the 64-bit
  range. Otherwise the result is \<open>None\<close> when no row has the id; when one has, the set
  fields are assigned and the change committed, and on \<open>IntegrityError\<close> it is rolled back
  with result \<open>None\<close>.
\<close>

definition update_item ::
  "db \<Rightarrow> int \<Rightarrow> InventoryItemUpdate \<Rightarrow> (error + InventoryItem option) \<times> db" where
  "update_item db i item =
     (if \<not> in_int64 i then (Inl OverflowError, db)
      else
        (case find (\<lambda>r. item_id r = i) db of
           None \<Rightarrow> (Inr None, db)
         | Some db_item \<Rightarrow>
             (let new = apply_update item db_item
              in if update_ok db new then (Inr (Some new), replace_row i new db)
                 else (Inr None, db))))"

text \<open>
  \<open>delete_item\<close>: the query by id raises \<open>OverflowError\<close> for an id outside the 64-bit
  range. Otherwise the row with the id is deleted and returned, \<open>None\<close> when there is none.
\<close>

definition delete_item :: "db \<Rightarrow> int \<Rightarrow> (error + InventoryItem option) \<times> db" where
  "delete_item db i =
     (if \<not> in_int64 i then (Inl OverflowError, db)
      else
        (case find (\<lambda>r. item_id r = i) db of
           None \<Rightarrow> (Inr None, db)
         | Some db_item \<Rightarrow> (Inr (Some db_item), filter (\<lambda>r. item_id r \<noteq> i) db)))"

section \<open>The request handlers (\<open>main.py\<close>)\<close>

text \<open>
  An exception of a store call that the handler does not catch ends the request with that
  exception: the \<open>Inl e\<close> branches below. Nothing has been written at that point.
\<close>

definition create_inventory_item ::
  "InventoryItemCreate \<Rightarrow> db \<Rightarrow> (error + InventoryItem) \<times> db" where
  "create_inventory_item item db =
     (case get_item_by_name db (create_name item) of
        Some db_item \<Rightarrow> (Inl (HTTPException 409 ''Item with this name already exists''), db)
      | None \<Rightarrow>
          (case create_item db item of
             (None, db') \<Rightarrow>
               (Inl (HTTPException 500 ''Could not create item due to an unexpected error.''), db')
           | (Some created_item, db') \<Rightarrow> (Inr created_item, db')))"

text \<open>
  The same handler when another writer commits between its two store calls: the name
  check reads \<open>db\<close>, and \<open>create_item\<close> runs on \<open>other db\<close>.
\<close>

definition create_inventory_item_interleaved ::
  "(db \<Rightarrow> db) \<Rightarrow> InventoryItemCreate \<Rightarrow> db \<Rightarrow> (error + InventoryItem) \<times> db" where
  "create_inventory_item_interleaved other item db =
     (case get_item_by_name db (create_name item) of
        Some db_item \<Rightarrow> (Inl (HTTPException 409 ''Item with this name already exists''), db)
      | None \<Rightarrow>
          (case create_item (other db) item of
             (None, db') \<Rightarrow>
               (Inl (HTTPException 500 ''Could not create item due to an unexpected error.''), db')
           | (Some created_item, db') \<Rightarrow> (Inr created_item, db')))"

text \<open>The handler has no check of \<open>skip\<close> and \<open>limit\<close>: both are plain \<open>int\<close> parameters.\<close>

definition read_inventory_items :: "int \<Rightarrow> int \<Rightarrow> db \<Rightarrow> error + InventoryItem list" where
  "read_inventory_items skip limit db =
     (case get_items db skip limit of
        Inl e \<Rightarrow> Inl e
      | Inr items \<Rightarrow> Inr items)"

text \<open>The query parameters of the route: a parameter left out takes its default.\<close>

definition list_items_request :: "int option \<Rightarrow> int option \<Rightarrow> db \<Rightarrow> error + InventoryItem list" where
  "list_items_request skip limit db =
     read_inventory_items (case skip of None \<Rightarrow> 0 | Some s \<Rightarrow> s)
                          (case limit of None \<Rightarrow> 100 | Some l \<Rightarrow> l) db"

definition read_inventory_item :: "int \<Rightarrow> db \<Rightarrow> error + InventoryItem" where
  "read_inventory_item i db =
     (case get_item db i of
        Inl e \<Rightarrow> Inl e
      | Inr None \<Rightarrow> Inl (HTTPException 404 ''Item not found'')
      | Inr (Some db_item) \<Rightarrow> Inr db_item)"

text \<open>
  The name check of the update handler: it fires when the request's \<open>name\<close> is not \<open>None\<close>,
  differs from the stored name, and the first row with that name has another id.
\<close>

definition name_conflict :: "db \<Rightarrow> int \<Rightarrow> InventoryItemUpdate \<Rightarrow> InventoryItem \<Rightarrow> bool" where
  "name_conflict db i item db_item =
     (case attr (update_name item) of
        None \<Rightarrow> False
      | Some n \<Rightarrow>
          Some n \<noteq> item_name db_item \<and>
          (case get_item_by_name db n of
             None \<Rightarrow> False
           | Some existing \<Rightarrow> item_id existing \<noteq> i))"

definition update_inventory_item ::
  "int \<Rightarrow> InventoryItemUpdate \<Rightarrow> db \<Rightarrow> (error + InventoryItem) \<times> db" where
  "update_inventory_item i item db =
     (case get_item db i of
        Inl e \<Rightarrow> (Inl e, db)
      | Inr None \<Rightarrow> (Inl (HTTPException 404 ''Item not found''), db)
      | Inr (Some db_item) \<Rightarrow>
          (if name_conflict db i item db_item
           then (Inl (HTTPException 409 ''Another item with this name already exists''), db)
           else
             (case update_item db i item of
                (Inl e, db') \<Rightarrow> (Inl e, db')
              | (Inr None, db') \<Rightarrow>
                  (Inl (HTTPException 500 ''Could not update item due to an unexpected error.''), db')
              | (Inr (Some updated_item), db') \<Rightarrow> (Inr updated_item, db'))))"

definition delete_inventory_item :: "int \<Rightarrow> db \<Rightarrow> (error + unit) \<times> db" where
  "delete_inventory_item i db =
     (case delete_item db i of
        (Inl e, db') \<Rightarrow> (Inl e, db')
      | (Inr None, db') \<Rightarrow> (Inl (HTTPException 404 ''Item not found''), db')
      | (Inr (Some deleted_item), db') \<Rightarrow> (Inr (), db'))"

text \<open>
  The routes with the validation FastAPI runs on the body before the handler is called.
\<close>

definition post_items :: "raw_create \<Rightarrow> db \<Rightarrow> (error + InventoryItem) \<times> db" where
  "post_items raw db =
     (case validate_create raw of
        Inl e \<Rightarrow> (Inl e, db)
      | Inr item \<Rightarrow> create_inventory_item item db)"

definition put_item :: "int \<Rightarrow> InventoryItemUpdate \<Rightarrow> db \<Rightarrow> (error + InventoryItem) \<times> db" where
  "put_item i raw db =
     (case validate_update raw of
        Inl e \<Rightarrow> (Inl e, db)
      | Inr item \<Rightarrow> update_inventory_item i item db)"

section \<open>Sequences of requests and the constraints of the table\<close>

text \<open>The requests that write to the store.\<close>

datatype request = POST raw_create | PUT int InventoryItemUpdate | DELETE int

fun handle :: "request \<Rightarrow> db \<Rightarrow> db" where
  "handle (POST raw) db = snd (post_items raw db)"
| "handle (PUT i raw) db = snd (put_item i raw db)"
| "handle (DELETE i) db = snd (delete_inventory_item i db)"

fun run :: "request list \<Rightarrow> db \<Rightarrow> db" where
  "run [] db = db"
| "run (r # rs) db = run rs (handle r db)"

text \<open>\<open>name = Column(String, unique=True, ...)\<close>: no two rows share a name.\<close>

definition unique_names :: "db \<Rightarrow> bool" where
  "unique_names db = distinct (map item_name db)"

text \<open>
  The constraints of \<open>models.py\<close> on a table: \<open>id\<close> is the primary key, \<open>name\<close> is unique,
  \<open>name\<close> and \<open>status\<close> are not null.
\<close>

definition wf_db :: "db \<Rightarrow> bool" where
  "wf_db db =
     (distinct (map item_id db) \<and> unique_names db \<and>
      list_all (\<lambda>r. item_name r \<noteq> None \<and> item_status r \<noteq> None) db)"

text \<open>Another writer's committed insert of \<open>item\<close>, for the interleaved create.\<close>

definition concurrent_create :: "InventoryItemCreate \<Rightarrow> db \<Rightarrow> db" where
  "concurrent_create item db = snd (create_item db item)"

section \<open>The specification's reading of the name bound\<close>

text \<open>
  The specification bounds the \<^emph>\<open>trimmed\<close> length of a name. \<open>trimmed\<close> removes leading and
  trailing white space, and \<open>spec_name_ok\<close> is the bound as the specification words it; it
  is compared with \<open>name_ok\<close>, the bound of \<open>schemas.py\<close>.
\<close>

definition whitespace :: "char \<Rightarrow> bool" where
  "whitespace c = (c \<in> set [CHR '' '', CHR 0x09, CHR 0x0A, CHR 0x0B, CHR 0x0C, CHR 0x0D])"

definition trimmed :: "string \<Rightarrow> string" where
  "trimmed s = rev (dropWhile whitespace (rev (dropWhile whitespace s)))"

definition spec_name_ok :: "string \<Rightarrow> bool" where
  "spec_name_ok s = (1 \<le> length (trimmed s) \<and> length (trimmed s) \<le> 100)"

section \<open>Sample data\<close>

text \<open>The rows and requests of \<open>tests/test_main.py\<close>, used to run the theorems on.\<close>

definition item_a :: InventoryItem where
  "item_a = \<lparr>item_id = 1, item_name = Some ''Item A'', item_description = None,
              item_status = Some True\<rparr>"

definition item_b :: InventoryItem where
  "item_b = \<lparr>item_id = 2, item_name = Some ''Item B'', item_description = None,
              item_status = Some True\<rparr>"

definition sugar :: InventoryItem where
  "sugar = \<lparr>item_id = 1, item_name = Some ''Sugar'',
             item_description = Some ''White granulated sugar'', item_status = Some True\<rparr>"

definition sugar_update :: InventoryItemUpdate where
  "sugar_update = \<lparr>update_name = Unset, update_description = Given ''Brown sugar alternative'',
                    update_status = Given False\<rparr>"

definition rename_to_a :: InventoryItemUpdate where
  "rename_to_a = \<lparr>update_name = Given ''Item A'', update_description = Unset,
                   update_status = Unset\<rparr>"

definition empty_update :: InventoryItemUpdate where
  "empty_update = \<lparr>update_name = Unset, update_description = Unset, update_status = Unset\<rparr>"

definition null_name_update :: InventoryItemUpdate where
  "null_name_update = \<lparr>update_name = Null, update_description = Unset, update_status = Unset\<rparr>"

definition milk_raw :: raw_create where
  "milk_raw = \<lparr>raw_name = Given ''Milk'', raw_description = Given ''Full fat milk'',
                raw_status = Unset\<rparr>"

definition milk :: InventoryItemCreate where
  "milk = \<lparr>create_name = ''Milk'', create_description = Some ''Full fat milk'',
            create_status = True\<rparr>"

definition milk_row :: InventoryItem where
  "milk_row = \<lparr>item_id = 1, item_name = Some ''Milk'',
                item_description = Some ''Full fat milk'', item_status = Some True\<rparr>"

definition bread :: InventoryItem where
  "bread = \<lparr>item_id = 3, item_name = Some ''Bread'',
             item_description = Some ''Whole wheat bread'', item_status = Some True\<rparr>"

definition blank_raw :: raw_create where
  "blank_raw = \<lparr>raw_name = Given '' '', raw_description = Unset, raw_status = Unset\<rparr>"

definition nameless_raw :: raw_create where
  "nameless_raw = \<lparr>raw_name = Given [], raw_description = Unset, raw_status = Unset\<rparr>"

section \<open>Lemmas about the store\<close>

lemma find_id_Some:
  "find (\<lambda>r. item_id r = i) db = Some old \<Longrightarrow> item_id old = i \<and> old \<in> set db"
  by (auto simp: find_Some_iff)

lemma find_in_set: "find P xs = Some x \<Longrightarrow> x \<in> set xs \<and> P x"
  by (auto simp: find_Some_iff)

lemma find_None_append:
  "find P xs = None \<Longrightarrow> find P (xs @ [x]) = (if P x then Some x else None)"
  by (induction xs) auto

lemma item_id_apply_update [simp]: "item_id (apply_update item r) = item_id r"
  by (simp add: apply_update_def)

lemma get_item_Some:
  "get_item db i = Inr (Some old) \<Longrightarrow>
   in_int64 i \<and> find (\<lambda>r. item_id r = i) db = Some old \<and> item_id old = i \<and> old \<in> set db"
  by (auto simp: get_item_def find_Some_iff split: if_splits)


subsection \<open>Fresh ids\<close>

lemma fold_max_ge: "a \<le> fold max xs (a::int)"
  by (induction xs arbitrary: a) (auto intro: order_trans [OF max.cobounded2])

lemma fold_max_upper: "x \<in> set xs \<Longrightarrow> x \<le> fold max xs (a::int)"
proof (induction xs arbitrary: a)
  case Nil
  then show ?case by simp
next
  case (Cons y ys)
  show ?case
  proof (cases "x = y")
    case True
    have "y \<le> max y a" by simp
    also have "\<dots> \<le> fold max ys (max y a)" by (rule fold_max_ge)
    finally show ?thesis using True by simp
  next
    case False
    with Cons show ?thesis by simp
  qed
qed

lemma next_id_fresh: "r \<in> set db \<Longrightarrow> item_id r < next_id db"
  using fold_max_upper [of "item_id r" "map item_id db" 0] by (simp add: next_id_def)

lemma find_next_id: "find (\<lambda>r. item_id r = next_id db) db = None"
proof -
  have "\<forall>r\<in>set db. item_id r \<noteq> next_id db"
    using next_id_fresh [of _ db] by fastforce
  then show ?thesis by (simp add: find_None_iff)
qed

subsection \<open>Replacing a row\<close>

lemma replace_row_Cons:
  "replace_row i new (r # rs) = (if item_id r = i then new else r) # replace_row i new rs"
  by (simp add: replace_row_def)

lemma find_replace_row_same:
  "find (\<lambda>r. item_id r = i) db = Some old \<Longrightarrow> item_id new = i \<Longrightarrow>
   find (\<lambda>r. item_id r = i) (replace_row i new db) = Some new"
  by (induction db) (auto simp: replace_row_def)

lemma find_replace_row_other:
  "item_id new = i \<Longrightarrow> j \<noteq> i \<Longrightarrow>
   find (\<lambda>r. item_id r = j) (replace_row i new db) = find (\<lambda>r. item_id r = j) db"
  by (induction db) (auto simp: replace_row_def)

lemma map_id_replace_row:
  "item_id new = i \<Longrightarrow> map item_id (replace_row i new db) = map item_id db"
  by (induction db) (auto simp: replace_row_def)

lemma set_replace_row: "set (replace_row i new db) \<subseteq> insert new (set db)"
  by (auto simp: replace_row_def)

lemma replace_row_absent:
  "\<forall>r\<in>set db. item_id r \<noteq> i \<Longrightarrow> replace_row i new db = db"
  unfolding replace_row_def by (rule map_idI) simp

lemma unique_names_eq:
  "unique_names db \<Longrightarrow> p \<in> set db \<Longrightarrow> q \<in> set db \<Longrightarrow> item_name p = item_name q \<Longrightarrow> p = q"
  by (auto simp: unique_names_def distinct_map dest: inj_onD)

lemma distinct_ids_eq:
  "distinct (map item_id db) \<Longrightarrow> p \<in> set db \<Longrightarrow> q \<in> set db \<Longrightarrow> item_id p = item_id q \<Longrightarrow> p = q"
  by (auto simp: distinct_map dest: inj_onD)

lemma replace_row_same:
  "distinct (map item_id db) \<Longrightarrow> old \<in> set db \<Longrightarrow> replace_row (item_id old) old db = db"
  unfolding replace_row_def
  by (rule map_idI) (auto dest: distinct_ids_eq)

lemma unique_names_replace_row:
  assumes "distinct (map item_id db)" and "unique_names db" and "item_id new = i"
    and "\<forall>q\<in>set db. item_id q \<noteq> i \<longrightarrow> item_name q \<noteq> item_name new"
  shows "unique_names (replace_row i new db)"
  using assms
proof (induction db)
  case Nil
  then show ?case by (simp add: unique_names_def replace_row_def)
next
  case (Cons r rs)
  from Cons.prems have tl: "distinct (map item_id rs)" "unique_names rs"
    "\<forall>q\<in>set rs. item_id q \<noteq> i \<longrightarrow> item_name q \<noteq> item_name new"
    by (auto simp: unique_names_def)
  show ?case
  proof (cases "item_id r = i")
    case True
    from Cons.prems(1) have "item_id r \<notin> item_id ` set rs" by simp
    with True have "\<forall>q\<in>set rs. item_id q \<noteq> i" by blast
    then have "replace_row i new rs = rs" "\<forall>q\<in>set rs. item_name q \<noteq> item_name new"
      using tl(3) by (auto simp: replace_row_absent)
    with True tl(2) show ?thesis
      by (auto simp: unique_names_def replace_row_Cons)
  next
    case False
    have IH: "unique_names (replace_row i new rs)"
      using Cons.IH tl Cons.prems(3) by simp
    have "item_name r \<notin> item_name ` set (replace_row i new rs)"
    proof
      assume "item_name r \<in> item_name ` set (replace_row i new rs)"
      then obtain q where q: "q \<in> set (replace_row i new rs)" "item_name q = item_name r"
        by auto
      with set_replace_row [of i new rs] have "q = new \<or> q \<in> set rs" by auto
      then show False
      proof
        assume "q = new"
        with q(2) Cons.prems(4) False show False by auto
      next
        assume "q \<in> set rs"
        then have "item_name q \<in> item_name ` set rs" by (rule imageI)
        with q(2) Cons.prems(2) show False by (simp add: unique_names_def)
      qed
    qed
    with IH False show ?thesis
      by (simp add: unique_names_def replace_row_Cons)
  qed
qed

subsection \<open>The store operations keep the constraints of the table\<close>

lemma wf_db_empty: "wf_db []"
  by (simp add: wf_db_def unique_names_def)

lemma wf_db_create_item:
  assumes "wf_db db"
  shows "wf_db (snd (create_item db item))"
proof (cases "insert_ok db \<lparr>item_id = next_id db, item_name = Some (create_name item),
                 item_description = create_description item,
                 item_status = Some (create_status item)\<rparr>")
  case False
  with assms show ?thesis by (simp add: create_item_def Let_def)
next
  case True
  then have "\<forall>q\<in>set db. item_name q \<noteq> Some (create_name item)"
    by (simp add: insert_ok_def find_None_iff)
  moreover have "\<forall>q\<in>set db. item_id q \<noteq> next_id db"
    using next_id_fresh [of _ db] by fastforce
  ultimately show ?thesis
    using assms True by (auto simp: create_item_def Let_def wf_db_def unique_names_def)
qed

lemma wf_db_update_item:
  assumes "wf_db db"
  shows "wf_db (snd (update_item db i item))"
proof (cases "find (\<lambda>r. item_id r = i) db")
  case None
  with assms show ?thesis by (simp add: update_item_def)
next
  case (Some old)
  let ?new = "apply_update item old"
  from Some have idn: "item_id ?new = i" by (auto dest: find_id_Some)
  show ?thesis
  proof (cases "in_int64 i \<and> update_ok db ?new")
    case False
    with Some assms show ?thesis by (auto simp: update_item_def Let_def)
  next
    case True
    then have nn: "item_name ?new \<noteq> None" "item_status ?new \<noteq> None"
      and oth: "\<forall>q\<in>set db. item_id q \<noteq> i \<longrightarrow> item_name q \<noteq> item_name ?new"
      using idn by (auto simp: update_ok_def find_None_iff)
    from assms have di: "distinct (map item_id db)" and un: "unique_names db"
      and la: "\<forall>r\<in>set db. item_name r \<noteq> None \<and> item_status r \<noteq> None"
      by (auto simp: wf_db_def list_all_iff)
    have 1: "distinct (map item_id (replace_row i ?new db))"
      using di idn by (simp add: map_id_replace_row)
    have 2: "unique_names (replace_row i ?new db)"
      using di un idn oth by (rule unique_names_replace_row)
    have 3: "\<forall>r\<in>set (replace_row i ?new db). item_name r \<noteq> None \<and> item_status r \<noteq> None"
      using la nn set_replace_row [of i ?new db] by auto
    from 1 2 3 Some True show ?thesis
      by (simp add: update_item_def Let_def wf_db_def list_all_iff)
  qed
qed

lemma wf_db_delete_item:
  assumes "wf_db db"
  shows "wf_db (snd (delete_item db i))"
  using assms
  by (auto simp: delete_item_def wf_db_def unique_names_def distinct_map_filter list_all_iff
      split: option.splits)

lemma snd_create_inventory_item:
  "snd (create_inventory_item item db) = db \<or>
   snd (create_inventory_item item db) = snd (create_item db item)"
  by (simp add: create_inventory_item_def split: option.splits prod.splits)

lemma snd_update_inventory_item:
  "snd (update_inventory_item i item db) = db \<or>
   snd (update_inventory_item i item db) = snd (update_item db i item)"
  by (simp add: update_inventory_item_def split: sum.splits option.splits prod.splits)

lemma snd_delete_inventory_item:
  "snd (delete_inventory_item i db) = snd (delete_item db i)"
  by (simp add: delete_inventory_item_def split: sum.splits option.splits prod.splits)

lemma wf_db_handle:
  assumes "wf_db db"
  shows "wf_db (handle r db)"
proof (cases r)
  case (POST raw)
  show ?thesis
  proof (cases "validate_create raw")
    case (Inl e)
    with POST assms show ?thesis by (simp add: post_items_def)
  next
    case (Inr item)
    with POST have "handle r db = snd (create_inventory_item item db)"
      by (simp add: post_items_def)
    with snd_create_inventory_item [of item db] wf_db_create_item [OF assms, of item] assms
    show ?thesis by auto
  qed
next
  case (PUT i raw)
  show ?thesis
  proof (cases "validate_update raw")
    case (Inl e)
    with PUT assms show ?thesis by (simp add: put_item_def)
  next
    case (Inr item)
    with PUT have "handle r db = snd (update_inventory_item i item db)"
      by (simp add: put_item_def)
    with snd_update_inventory_item [of i item db] wf_db_update_item [OF assms, of i item] assms
    show ?thesis by auto
  qed
next
  case (DELETE i)
  with wf_db_delete_item [OF assms, of i] show ?thesis
    by (simp add: snd_delete_inventory_item)
qed

lemma wf_db_run: "wf_db db \<Longrightarrow> wf_db (run rs db)"
  by (induction rs arbitrary: db) (auto intro: wf_db_handle)

lemma wf_db_samples:
  "wf_db [item_a, item_b]" "wf_db [sugar]" "wf_db [milk_row]" "wf_db [item_a, item_b, bread]"
  by (auto simp: wf_db_def unique_names_def item_a_def item_b_def sugar_def milk_row_def
      bread_def)

section \<open>The claims\<close>

text \<open>
  C1. An update of an existing item changes only the fields the request sets: whatever
  the outcome of \<open>update_inventory_item\<close>, the row with the id is still there afterwards,
  every field the request left unset holds its prior value, a successful response is that
  row, and no other row is touched.
\<close>

theorem update_keeps_unset_fields:
  assumes "get_item db i = Inr (Some old)"
    and "update_inventory_item i item db = (res, db')"
  shows "\<exists>new. get_item db' i = Inr (Some new)
           \<and> item_id new = item_id old
           \<and> (update_name item = Unset \<longrightarrow> item_name new = item_name old)
           \<and> (update_description item = Unset \<longrightarrow> item_description new = item_description old)
           \<and> (update_status item = Unset \<longrightarrow> item_status new = item_status old)
           \<and> (\<forall>u. res = Inr u \<longrightarrow> u = new)
           \<and> (\<forall>j. j \<noteq> i \<longrightarrow> get_item db' j = get_item db j)"
proof -
  from assms(1) have rng: "in_int64 i"
    and f: "find (\<lambda>r. item_id r = i) db = Some old" and idold: "item_id old = i"
    by (auto dest: get_item_Some)
  let ?new = "apply_update item old"
  show ?thesis
  proof (cases "name_conflict db i item old \<or> \<not> update_ok db ?new")
    case True
    with assms f rng have "db' = db" "\<forall>u. res \<noteq> Inr u"
      by (auto simp: update_inventory_item_def update_item_def Let_def split: if_splits)
    with assms(1) show ?thesis by auto
  next
    case False
    with assms f rng have r: "db' = replace_row i ?new db" "res = Inr ?new"
      by (auto simp: update_inventory_item_def update_item_def Let_def split: if_splits)
    have "get_item db' i = Inr (Some ?new)"
      using f idold rng r(1) by (simp add: get_item_def find_replace_row_same)
    moreover have "\<forall>j. j \<noteq> i \<longrightarrow> get_item db' j = get_item db j"
      using idold r(1) by (simp add: get_item_def find_replace_row_other)
    ultimately show ?thesis using r(2)
      by (auto simp: apply_update_def)
  qed
qed

theorem update_keeps_unset_fields_witness:
  "get_item [sugar] 1 = Inr (Some sugar)
   \<and> update_inventory_item 1 sugar_update [sugar] =
       (Inr (sugar\<lparr>item_description := Some ''Brown sugar alternative'', item_status := Some False\<rparr>),
        [sugar\<lparr>item_description := Some ''Brown sugar alternative'', item_status := Some False\<rparr>])
   \<and> (\<exists>new. get_item [sugar\<lparr>item_description := Some ''Brown sugar alternative'',
                              item_status := Some False\<rparr>] 1 = Inr (Some new)
           \<and> item_name new = Some ''Sugar'')"
proof -
  let ?s = "sugar\<lparr>item_description := Some ''Brown sugar alternative'', item_status := Some False\<rparr>"
  have h1: "get_item [sugar] 1 = Inr (Some sugar)"
    by (simp add: get_item_def in_int64_def sugar_def)
  have h2: "update_inventory_item 1 sugar_update [sugar] = (Inr ?s, [?s])"
    by (simp add: update_inventory_item_def get_item_def in_int64_def name_conflict_def
        update_item_def apply_update_def update_ok_def replace_row_def sugar_def
        sugar_update_def Let_def del: not_None_eq)
  have u: "update_name sugar_update = Unset" and n: "item_name sugar = Some ''Sugar''"
    by (simp_all add: sugar_update_def sugar_def)
  from update_keeps_unset_fields [OF h1 h2] u n h1 h2 show ?thesis by auto
qed

text \<open>
  C2, as the specification states it: when the name check passes and the store's create
  then reports a uniqueness conflict, the request fails with \<open>AlreadyExists\<close>. The handler
  answers 500 there: with an empty table at the time of the name check and another
  writer's insert of the same name before \<open>create_item\<close> runs, the store reports the
  conflict and the request fails with the internal error.
\<close>

theorem create_conflict_after_check_counterexample:
  "get_item_by_name [] (create_name milk) = None
   \<and> fst (create_item (concurrent_create milk []) milk) = None
   \<and> fst (create_inventory_item_interleaved (concurrent_create milk) milk []) =
       Inl (HTTPException 500 ''Could not create item due to an unexpected error.'')
   \<and> fst (create_inventory_item_interleaved (concurrent_create milk) milk []) \<noteq>
       Inl (HTTPException 409 ''Item with this name already exists'')"
  by (simp add: create_inventory_item_interleaved_def concurrent_create_def create_item_def
      get_item_by_name_def insert_ok_def next_id_def milk_def Let_def)

text \<open>
  C2, amended: in the create handler, an item with the requested name at the time of the
  name check makes the request fail with status 409 and leaves the store as it is; when
  the check passes and \<open>create_item\<close> then reports a conflict (another writer has
  committed in between), the request fails with status 500, and the store is as the other
  writer left it. Without another writer the interleaved handler is the handler.
\<close>

theorem create_conflict_mapping:
  "(get_item_by_name db (create_name item) \<noteq> None \<longrightarrow>
      create_inventory_item_interleaved other item db =
        (Inl (HTTPException 409 ''Item with this name already exists''), db))
   \<and> (get_item_by_name db (create_name item) = None \<and> fst (create_item (other db) item) = None \<longrightarrow>
      create_inventory_item_interleaved other item db =
        (Inl (HTTPException 500 ''Could not create item due to an unexpected error.''), other db))
   \<and> create_inventory_item_interleaved (\<lambda>d. d) item db = create_inventory_item item db"
  by (auto simp: create_inventory_item_interleaved_def create_inventory_item_def create_item_def
      Let_def split: option.splits if_splits)

theorem create_conflict_mapping_witness:
  "get_item_by_name [milk_row] (create_name milk) \<noteq> None
   \<and> create_inventory_item_interleaved (concurrent_create milk) milk [milk_row] =
       (Inl (HTTPException 409 ''Item with this name already exists''), [milk_row])
   \<and> get_item_by_name [item_a] (create_name milk) = None
   \<and> fst (create_item (concurrent_create milk [item_a]) milk) = None
   \<and> create_inventory_item_interleaved (concurrent_create milk) milk [item_a] =
       (Inl (HTTPException 500 ''Could not create item due to an unexpected error.''),
        concurrent_create milk [item_a])"
proof -
  have h1: "get_item_by_name [milk_row] (create_name milk) \<noteq> None"
    by (simp add: get_item_by_name_def milk_row_def milk_def)
  have h2: "get_item_by_name [item_a] (create_name milk) = None"
    by (simp add: get_item_by_name_def item_a_def milk_def)
  have h3: "fst (create_item (concurrent_create milk [item_a]) milk) = None"
    by (simp add: concurrent_create_def create_item_def insert_ok_def next_id_def item_a_def
        milk_def Let_def)
  from create_conflict_mapping [of "[milk_row]" milk "concurrent_create milk"]
    create_conflict_mapping [of "[item_a]" milk "concurrent_create milk"] h1 h2 h3
  show ?thesis by auto
qed

text \<open>
  C3. In a table that meets its constraints, an update that renames item \<open>X\<close> to the
  current name of another item \<open>Y\<close> fails with status 409, and the store, so the rows of
  \<open>X\<close> and \<open>Y\<close>, is unchanged.
\<close>

theorem rename_to_existing_name_conflicts:
  assumes "wf_db db"
    and "get_item db x = Inr (Some X)" and "get_item db y = Inr (Some Y)" and "x \<noteq> y"
    and "update_name item = Given n" and "item_name Y = Some n"
  shows "update_inventory_item x item db =
           (Inl (HTTPException 409 ''Another item with this name already exists''), db)"
proof -
  from assms(2,3) have X: "X \<in> set db" "item_id X = x" and Y: "Y \<in> set db" "item_id Y = y"
    by (auto dest: get_item_Some)
  from assms(1) have un: "unique_names db" by (simp add: wf_db_def)
  have ne: "item_name X \<noteq> Some n"
    using unique_names_eq [OF un X(1) Y(1)] X(2) Y(2) assms(4,6) by auto
  obtain e where e: "get_item_by_name db n = Some e"
    using Y(1) assms(6)
    by (cases "get_item_by_name db n") (auto simp: get_item_by_name_def find_None_iff)
  then have "e \<in> set db" "item_name e = Some n"
    by (auto simp: get_item_by_name_def dest: find_in_set)
  with unique_names_eq [OF un _ Y(1)] assms(6) have "e = Y" by simp
  with Y(2) assms(4) have "item_id e \<noteq> x" by simp
  with e ne assms(5) have "name_conflict db x item X"
    by (auto simp: name_conflict_def)
  with assms(2) show ?thesis by (simp add: update_inventory_item_def)
qed

theorem rename_to_existing_name_conflicts_witness:
  "wf_db [item_a, item_b]
   \<and> get_item [item_a, item_b] 2 = Inr (Some item_b)
   \<and> get_item [item_a, item_b] 1 = Inr (Some item_a)
   \<and> update_name rename_to_a = Given ''Item A'' \<and> item_name item_a = Some ''Item A''
   \<and> update_inventory_item 2 rename_to_a [item_a, item_b] =
       (Inl (HTTPException 409 ''Another item with this name already exists''), [item_a, item_b])"
proof -
  have h1: "wf_db [item_a, item_b]" by (rule wf_db_samples)
  have h2: "get_item [item_a, item_b] 2 = Inr (Some item_b)"
    and h3: "get_item [item_a, item_b] 1 = Inr (Some item_a)"
    by (simp_all add: get_item_def in_int64_def item_a_def item_b_def)
  have h4: "(2::int) \<noteq> 1" by simp
  have h5: "update_name rename_to_a = Given ''Item A''" by (simp add: rename_to_a_def)
  have h6: "item_name item_a = Some ''Item A''" by (simp add: item_a_def)
  from rename_to_existing_name_conflicts [OF h1 h2 h3 h4 h5 h6] h1 h2 h3 h5 h6
  show ?thesis by simp
qed

text \<open>
  C4. Name uniqueness is an invariant of the store: after any sequence of create, update
  and delete requests on the empty table no two rows share a name, and from any table
  that meets its constraints every single request and every sequence of requests leads
  to a table without two rows of the same name.
\<close>

theorem names_stay_unique:
  "unique_names (run rs [])
   \<and> (wf_db db \<longrightarrow> unique_names (handle r db) \<and> unique_names (run rs db))"
  using wf_db_run [OF wf_db_empty, of rs] wf_db_run [of db rs] wf_db_handle [of db r]
  by (auto simp: wf_db_def)

theorem names_stay_unique_witness:
  "wf_db [item_a, item_b]
   \<and> unique_names (handle (PUT 2 rename_to_a) [item_a, item_b])
   \<and> unique_names (run [POST milk_raw, PUT 2 rename_to_a, DELETE 1, PUT 2 rename_to_a]
                       [item_a, item_b])"
proof -
  have h: "wf_db [item_a, item_b]" by (rule wf_db_samples)
  from names_stay_unique [of "[POST milk_raw, PUT 2 rename_to_a, DELETE 1, PUT 2 rename_to_a]"
      "[item_a, item_b]" "PUT 2 rename_to_a"] h
  show ?thesis by simp
qed

text \<open>
  C5. For a creation input that passes validation and whose name is not in the store, the
  create request succeeds and appends one row; reading the returned id gives that row;
  its name is the input's, its description the input's (null when left out), its status
  the input's (true when left out); and its id was the id of no row before. The table is
  one SQLite can extend by its rule for ids: the next id is a 64-bit integer.
\<close>

theorem create_then_read:
  assumes "validate_create raw = Inr item"
    and "get_item_by_name db (create_name item) = None"
    and "in_int64 (next_id db)"
  shows "\<exists>created.
           post_items raw db = (Inr created, db @ [created])
         \<and> read_inventory_item (item_id created) (db @ [created]) = Inr created
         \<and> raw_name raw = Given (create_name item)
         \<and> item_name created = Some (create_name item)
         \<and> item_description created = attr (raw_description raw)
         \<and> item_status created = Some (case raw_status raw of Given b \<Rightarrow> b | _ \<Rightarrow> True)
         \<and> get_item db (item_id created) = Inr None"
proof -
  let ?c = "\<lparr>item_id = next_id db, item_name = Some (create_name item),
             item_description = create_description item,
             item_status = Some (create_status item)\<rparr>"
  have ok: "insert_ok db ?c"
    using assms(2) by (simp add: insert_ok_def get_item_by_name_def)
  have post: "post_items raw db = (Inr ?c, db @ [?c])"
    using assms(1,2) ok
    by (simp add: post_items_def create_inventory_item_def create_item_def Let_def)
  have fresh: "get_item db (next_id db) = Inr None"
    using assms(3) by (simp add: get_item_def find_next_id)
  have rd: "read_inventory_item (next_id db) (db @ [?c]) = Inr ?c"
    using assms(3)
    by (simp add: read_inventory_item_def get_item_def find_next_id find_None_append)
  have nm: "raw_name raw = Given (create_name item)"
    using assms(1)
    by (cases "raw_name raw") (auto simp: validate_create_def split: option.splits if_splits)
  have ds: "create_description item = attr (raw_description raw)"
    using assms(1)
    by (cases "raw_description raw") (auto simp: validate_create_def split: option.splits if_splits)
  have st: "create_status item = (case raw_status raw of Given b \<Rightarrow> b | _ \<Rightarrow> True)"
    using assms(1)
    by (cases "raw_status raw") (auto simp: validate_create_def split: option.splits if_splits)
  show ?thesis
    using post rd nm ds st fresh by (intro exI [of _ ?c]) simp
qed

theorem create_then_read_witness:
  "validate_create milk_raw = Inr milk
   \<and> get_item_by_name [item_a, item_b] (create_name milk) = None
   \<and> in_int64 (next_id [item_a, item_b])
   \<and> post_items milk_raw [item_a, item_b] =
       (Inr (milk_row\<lparr>item_id := 3\<rparr>), [item_a, item_b, milk_row\<lparr>item_id := 3\<rparr>])
   \<and> read_inventory_item 3 [item_a, item_b, milk_row\<lparr>item_id := 3\<rparr>] =
       Inr (milk_row\<lparr>item_id := 3\<rparr>)"
proof -
  have h1: "validate_create milk_raw = Inr milk"
    by (simp add: validate_create_def milk_raw_def milk_def name_ok_def description_ok_def)
  have h2: "get_item_by_name [item_a, item_b] (create_name milk) = None"
    by (simp add: get_item_by_name_def item_a_def item_b_def milk_def)
  have h3: "in_int64 (next_id [item_a, item_b])"
    by (simp add: in_int64_def next_id_def item_a_def item_b_def)
  have p: "post_items milk_raw [item_a, item_b] =
       (Inr (milk_row\<lparr>item_id := 3\<rparr>), [item_a, item_b, milk_row\<lparr>item_id := 3\<rparr>])"
    using h1
    by (simp add: post_items_def create_inventory_item_def create_item_def insert_ok_def
        get_item_by_name_def next_id_def item_a_def item_b_def milk_def milk_row_def Let_def
        del: not_None_eq)
  from create_then_read [OF h1 h2 h3] p h1 h2 h3 show ?thesis by auto
qed




text \<open>
  C7, as the specification states it: the list operation fails with \<open>ValidationFailed\<close>
  when \<open>skip\<close> or \<open>limit\<close> is negative. The handler has no such check: with both
  parameters \<open>-1\<close> it succeeds and returns every row.
\<close>

theorem list_negative_bounds_counterexample:
  "read_inventory_items (- 1) (- 1) [item_a, item_b] = Inr [item_a, item_b]"
  by (simp add: read_inventory_items_def get_items_def in_int64_def sql_limit_def
      sql_offset_def)

text \<open>
  C7, amended: the list operation does not validate the sign of \<open>skip\<close> and \<open>limit\<close>: for
  a \<open>skip\<close> and a \<open>limit\<close> in the signed 64-bit range it succeeds, also when either is
  negative; for a \<open>skip\<close> and a \<open>limit\<close> in that range that are not negative it returns
  the rows after the first \<open>skip\<close>, at most \<open>limit\<close> of them; the defaults are 0 and 100;
  and on an empty table the result is the empty list, a success.
\<close>

theorem list_items_window:
  "(in_int64 skip \<and> in_int64 limit \<longrightarrow>
        (\<exists>xs. read_inventory_items skip limit db = Inr xs)
        \<and> read_inventory_items skip limit [] = Inr [])
   \<and> (0 \<le> skip \<and> skip < 2 ^ 63 \<and> 0 \<le> limit \<and> limit < 2 ^ 63 \<longrightarrow>
        read_inventory_items skip limit db = Inr (take (nat limit) (drop (nat skip) db))
        \<and> int (length (take (nat limit) (drop (nat skip) db))) \<le> limit)
   \<and> list_items_request None None db = read_inventory_items 0 100 db
   \<and> list_items_request None None db = Inr (take 100 db)
   \<and> list_items_request None None [] = Inr []"
proof -
  have 1: "in_int64 skip \<and> in_int64 limit \<longrightarrow>
        (\<exists>xs. read_inventory_items skip limit db = Inr xs)
        \<and> read_inventory_items skip limit [] = Inr []"
    by (simp add: read_inventory_items_def get_items_def sql_limit_def sql_offset_def)
  have 2: "0 \<le> skip \<and> skip < 2 ^ 63 \<and> 0 \<le> limit \<and> limit < 2 ^ 63 \<longrightarrow>
        read_inventory_items skip limit db = Inr (take (nat limit) (drop (nat skip) db))
        \<and> int (length (take (nat limit) (drop (nat skip) db))) \<le> limit"
    by (auto simp: read_inventory_items_def get_items_def in_int64_def sql_limit_def
        sql_offset_def)
  have 3: "list_items_request None None db = read_inventory_items 0 100 db"
    by (simp add: list_items_request_def)
  have 4: "read_inventory_items 0 100 db = Inr (take 100 db)"
    by (simp add: read_inventory_items_def get_items_def in_int64_def sql_limit_def
        sql_offset_def)
  have 5: "list_items_request None None [] = Inr []"
    by (simp add: list_items_request_def read_inventory_items_def get_items_def in_int64_def
        sql_limit_def sql_offset_def)
  from 1 2 3 4 5 show ?thesis by simp
qed

theorem list_items_window_witness:
  "wf_db [item_a, item_b, bread]
   \<and> in_int64 1 \<and> (0::int) \<le> 1 \<and> (1::int) < 2 ^ 63
   \<and> read_inventory_items 1 1 [item_a, item_b, bread] = Inr [item_b]
   \<and> list_items_request None None [item_a, item_b, bread] = Inr [item_a, item_b, bread]
   \<and> list_items_request None None [] = Inr []"
proof -
  have w: "wf_db [item_a, item_b, bread]" by (rule wf_db_samples)
  have h1: "in_int64 1" by (simp add: in_int64_def)
  have h2: "(0::int) \<le> 1 \<and> (1::int) < 2 ^ 63" by simp
  from list_items_window [of 1 1 "[item_a, item_b, bread]"] w h1 h2
  show ?thesis by auto
qed

text \<open>
  C8, as the specification states it: a name is accepted exactly when its trimmed length
  is between 1 and 100. The schema bounds the length of the name as sent: a name of one
  space is accepted, and its trimmed length is 0.
\<close>

theorem blank_name_counterexample:
  "validate_create blank_raw =
     Inr \<lparr>create_name = '' '', create_description = None, create_status = True\<rparr>
   \<and> \<not> spec_name_ok '' ''"
  by (simp add: validate_create_def blank_raw_def name_ok_def spec_name_ok_def trimmed_def
      whitespace_def)

text \<open>
  C8, amended: creation input validation accepts a name exactly when it is sent as a
  string whose length, as sent, is between 1 and 100, and a description exactly when it
  is left out, null, or a string of length at most 500; the input as a whole is accepted
  exactly when name and description are and the status is not null; and a rejected input
  fails with the validation error, with the store as it was.
\<close>

theorem create_validation_bounds:
  "(validate_create_name f \<noteq> None \<longleftrightarrow> (\<exists>s. f = Given s \<and> 1 \<le> length s \<and> length s \<le> 100))
   \<and> (validate_description g \<noteq> None \<longleftrightarrow> (\<forall>d. g = Given d \<longrightarrow> length d \<le> 500))
   \<and> ((\<exists>item. validate_create raw = Inr item) \<longleftrightarrow>
        validate_create_name (raw_name raw) \<noteq> None \<and>
        validate_description (raw_description raw) \<noteq> None \<and> raw_status raw \<noteq> Null)
   \<and> ((\<forall>item. validate_create raw \<noteq> Inr item) \<longrightarrow>
        post_items raw db = (Inl RequestValidationError, db))"
proof -
  have 1: "validate_create_name f \<noteq> None \<longleftrightarrow> (\<exists>s. f = Given s \<and> 1 \<le> length s \<and> length s \<le> 100)"
    by (cases f) (auto simp: name_ok_def)
  have 2: "validate_description g \<noteq> None \<longleftrightarrow> (\<forall>d. g = Given d \<longrightarrow> length d \<le> 500)"
    by (cases g) (auto simp: description_ok_def)
  have 3: "(\<exists>item. validate_create raw = Inr item) \<longleftrightarrow>
        validate_create_name (raw_name raw) \<noteq> None \<and>
        validate_description (raw_description raw) \<noteq> None \<and> raw_status raw \<noteq> Null"
    by (cases "raw_status raw") (auto simp: validate_create_def split: option.splits)
  have 4: "(\<forall>item. validate_create raw \<noteq> Inr item) \<longrightarrow>
        post_items raw db = (Inl RequestValidationError, db)"
    by (auto simp: post_items_def validate_create_def split: option.splits sum.splits)
  from 1 2 3 4 show ?thesis by blast
qed

theorem create_validation_bounds_witness:
  "validate_create_name (Given ''Milk'') \<noteq> None
   \<and> validate_create_name (Given []) = None
   \<and> validate_description (Given ''Full fat milk'') \<noteq> None
   \<and> validate_create nameless_raw = Inl RequestValidationError
   \<and> post_items nameless_raw [item_a] = (Inl RequestValidationError, [item_a])"
proof -
  have h: "validate_create nameless_raw = Inl RequestValidationError"
    by (simp add: validate_create_def nameless_raw_def name_ok_def)
  from create_validation_bounds [of "Given ''Milk''" "Given ''Full fat milk''" nameless_raw "[item_a]"]
    create_validation_bounds [of "Given []" Unset nameless_raw "[item_a]"] h
  show ?thesis by auto
qed

text \<open>
  C9. In a table that meets its constraints, an update of an existing id that sets no
  field succeeds: the response is the stored item, and the store is unchanged.
\<close>

theorem empty_update_is_noop:
  assumes "wf_db db" and "get_item db i = Inr (Some old)"
    and "update_name item = Unset" and "update_description item = Unset"
    and "update_status item = Unset"
  shows "update_inventory_item i item db = (Inr old, db)"
proof -
  from assms(2) have rng: "in_int64 i" and f: "find (\<lambda>r. item_id r = i) db = Some old"
    and old: "old \<in> set db" "item_id old = i"
    by (auto dest: get_item_Some)
  have same: "apply_update item old = old"
    using assms(3-5) by (simp add: apply_update_def)
  have nc: "\<not> name_conflict db i item old"
    using assms(3) by (simp add: name_conflict_def)
  from assms(1) have un: "unique_names db" and di: "distinct (map item_id db)"
    and nn: "item_name old \<noteq> None" "item_status old \<noteq> None"
    using old(1) by (auto simp: wf_db_def list_all_iff)
  have "find (\<lambda>q. item_id q \<noteq> item_id old \<and> item_name q = item_name old) db = None"
    using unique_names_eq [OF un _ old(1)] by (auto simp: find_None_iff)
  with nn have ok: "update_ok db old" by (simp add: update_ok_def)
  have "replace_row i old db = db"
    using replace_row_same [OF di old(1)] old(2) by simp
  with f same nc ok rng assms(2) show ?thesis
    by (simp add: update_inventory_item_def update_item_def Let_def)
qed

theorem empty_update_is_noop_witness:
  "wf_db [item_a, item_b] \<and> get_item [item_a, item_b] 2 = Inr (Some item_b)
   \<and> update_name empty_update = Unset \<and> update_description empty_update = Unset
   \<and> update_status empty_update = Unset
   \<and> update_inventory_item 2 empty_update [item_a, item_b] = (Inr item_b, [item_a, item_b])"
proof -
  have h1: "wf_db [item_a, item_b]" by (rule wf_db_samples)
  have h2: "get_item [item_a, item_b] 2 = Inr (Some item_b)"
    by (simp add: get_item_def in_int64_def item_a_def item_b_def)
  have h3: "update_name empty_update = Unset" and h4: "update_description empty_update = Unset"
    and h5: "update_status empty_update = Unset"
    by (simp_all add: empty_update_def)
  from empty_update_is_noop [OF h1 h2 h3 h4 h5] h1 h2 h3 h4 h5 show ?thesis by simp
qed

text \<open>
  C10. An update of an existing id whose name is set to null (and whose description is
  within its bound) passes the validation of the update schema, does not trigger the
  name check of the handler, reaches the store as a write of null to \<open>name\<close>, which the
  not-null constraint rejects, and the request fails with status 500, not with the
  validation error; the store is unchanged.
\<close>

theorem null_name_update_is_internal_error:
  assumes "get_item db i = Inr (Some old)"
    and "update_name raw = Null"
    and "update_description_ok (update_description raw)"
  shows "validate_update raw = Inr raw
       \<and> \<not> name_conflict db i raw old
       \<and> item_name (apply_update raw old) = None
       \<and> update_item db i raw = (Inr None, db)
       \<and> put_item i raw db =
           (Inl (HTTPException 500 ''Could not update item due to an unexpected error.''), db)"
proof -
  from assms(1) have rng: "in_int64 i" and f: "find (\<lambda>r. item_id r = i) db = Some old"
    by (auto dest: get_item_Some)
  have v: "validate_update raw = Inr raw"
    using assms(2,3) by (simp add: validate_update_def)
  have nc: "\<not> name_conflict db i raw old"
    using assms(2) by (simp add: name_conflict_def)
  have nn: "item_name (apply_update raw old) = None"
    using assms(2) by (simp add: apply_update_def)
  then have u: "update_item db i raw = (Inr None, db)"
    using rng f by (simp add: update_item_def update_ok_def Let_def)
  have "put_item i raw db =
           (Inl (HTTPException 500 ''Could not update item due to an unexpected error.''), db)"
    using v nc u assms(1) by (simp add: put_item_def update_inventory_item_def)
  with v nc nn u show ?thesis by simp
qed

theorem null_name_update_is_internal_error_witness:
  "get_item [item_a, item_b] 1 = Inr (Some item_a)
   \<and> update_name null_name_update = Null
   \<and> update_description_ok (update_description null_name_update)
   \<and> validate_update null_name_update = Inr null_name_update
   \<and> put_item 1 null_name_update [item_a, item_b] =
       (Inl (HTTPException 500 ''Could not update item due to an unexpected error.''),
        [item_a, item_b])"
proof -
  have h1: "get_item [item_a, item_b] 1 = Inr (Some item_a)"
    by (simp add: get_item_def in_int64_def item_a_def item_b_def)
  have h2: "update_name null_name_update = Null"
    and h3: "update_description_ok (update_description null_name_update)"
    by (simp_all add: null_name_update_def)
  from null_name_update_is_internal_error [OF h1 h2 h3] h1 h2 h3 show ?thesis by simp
qed

end
